theory Spec2Isabelle
  imports Complex_Main "HOL-Library.Multiset"
begin

section \<open>JSON values as the request handlers see them\<close>

text \<open>
  The server reads \<^verbatim>\<open>req.body\<close> after \<^verbatim>\<open>express.json()\<close> has parsed it, so a
  request body is a JSON value. An object is kept as the list of its own properties;
  a property that is absent reads as \<^verbatim>\<open>undefined\<close>, which is \<open>None\<close> here.
\<close>

datatype json =
    JNull
  | JBool bool
  | JNum real
  | JStr string
  | JArr "json list"
  | JObj "(string \<times> json) list"

text \<open>
  \<^verbatim>\<open>const { type, geojson, value, unit } = req.body\<close>: property access on the parsed
  body. Only an object has such properties; an array body has none of the four.
\<close>

fun field :: "json \<Rightarrow> string \<Rightarrow> json option" where
  "field (JObj kvs) k = map_of kvs k"
| "field _ k = None"

text \<open>
  JavaScript truthiness, as \<^verbatim>\<open>!x\<close> tests it: \<^verbatim>\<open>undefined\<close>, \<^verbatim>\<open>null\<close>,
  \<^verbatim>\<open>false\<close>, \<^verbatim>\<open>0\<close> and the empty string are falsy; every array and object is truthy.
\<close>

fun truthy :: "json option \<Rightarrow> bool" where
  "truthy None = False"
| "truthy (Some JNull) = False"
| "truthy (Some (JBool b)) = b"
| "truthy (Some (JNum x)) = (x \<noteq> 0)"
| "truthy (Some (JStr s)) = (s \<noteq> [])"
| "truthy (Some (JArr xs)) = True"
| "truthy (Some (JObj kvs)) = True"

text \<open>\<^verbatim>\<open>typeof value === "number"\<close>.\<close>

fun is_number :: "json option \<Rightarrow> bool" where
  "is_number (Some (JNum x)) = True"
| "is_number _ = False"

section \<open>The measurement store\<close>

text \<open>
  \<^verbatim>\<open>MeasurementSchema\<close> (server.js, lines 35 to 45) with \<^verbatim>\<open>timestamps: true\<close>: a stored
  document has the four schema paths, the \<^verbatim>\<open>_id\<close> the store assigns and the two
  timestamps. \<^verbatim>\<open>geojson\<close> is absent from a document whose value for it was dropped
  (see \<open>minimize\<close> below). Times are milliseconds since the epoch; ids are drawn from a
  counter of the store, so that they are unique as the primary key is.
\<close>

record measurement =
  m_id :: nat
  m_type :: string
  m_geojson :: "json option"
  m_value :: real
  m_unit :: string
  createdAt :: nat
  updatedAt :: nat

text \<open>
  The collection in natural (insertion) order, the id counter, and whether the database
  can be reached: \<open>fault = Some msg\<close> is a store whose every operation rejects with an
  error of message \<open>msg\<close> (the connection of lines 29 to 32 failed or was lost).
\<close>

record store =
  docs :: "measurement list"
  next_id :: nat
  fault :: "string option"

text \<open>
  What a handler's promise can reject with. The handlers of POST and DELETE have no
  \<^verbatim>\<open>try\<close>, so such an error leaves the handler without any response written by it.
\<close>

datatype error =
    StoreError string
  | ValidationError "string list"
  | BodyParseError

text \<open>What a handler writes: the status and the body.\<close>

datatype body =
    Json json
  | Doc measurement
  | Docs "measurement list"
  | Text string
  | Empty

record response =
  status :: nat
  body :: body

type_synonym result = "(error + response) \<times> store"

subsection \<open>What the store keeps of a value of any shape\<close>

text \<open>
  The schema options (line 42) leave Mongoose's \<^verbatim>\<open>minimize\<close> at its default, which is
  on: when a document is saved or serialised it is cloned, and the clone drops every
  property whose value is an empty object, innermost first, so that an object left
  without properties is dropped in turn. An element of an array is never dropped; an
  object there may become empty. \<open>clone\<close> is that copy of one value; \<open>minimize\<close> is what
  is kept of the value of a path, \<open>None\<close> when the path itself is dropped.
\<close>

fun clone :: "json \<Rightarrow> json"
  and clone_props :: "(string \<times> json) list \<Rightarrow> (string \<times> json) list"
  and clone_items :: "json list \<Rightarrow> json list" where
  "clone (JObj kvs) = JObj (clone_props kvs)"
| "clone (JArr xs) = JArr (clone_items xs)"
| "clone JNull = JNull"
| "clone (JBool b) = JBool b"
| "clone (JNum x) = JNum x"
| "clone (JStr s) = JStr s"
| "clone_props [] = []"
| "clone_props ((k, v) # kvs) =
     (if clone v = JObj [] then clone_props kvs else (k, clone v) # clone_props kvs)"
| "clone_items [] = []"
| "clone_items (x # xs) = clone x # clone_items xs"

definition minimize :: "json \<Rightarrow> json option" where
  "minimize j = (if clone j = JObj [] then None else Some (clone j))"

text \<open>A value that holds no empty object, at any depth.\<close>

fun no_empty_object :: "json \<Rightarrow> bool"
  and no_empty_props :: "(string \<times> json) list \<Rightarrow> bool"
  and no_empty_items :: "json list \<Rightarrow> bool" where
  "no_empty_object (JObj kvs) = (kvs \<noteq> [] \<and> no_empty_props kvs)"
| "no_empty_object (JArr xs) = no_empty_items xs"
| "no_empty_object JNull = True"
| "no_empty_object (JBool b) = True"
| "no_empty_object (JNum x) = True"
| "no_empty_object (JStr s) = True"
| "no_empty_props [] = True"
| "no_empty_props ((k, v) # kvs) = (no_empty_object v \<and> no_empty_props kvs)"
| "no_empty_items [] = True"
| "no_empty_items (x # xs) = (no_empty_object x \<and> no_empty_items xs)"

subsection \<open>Schema validation of \<^verbatim>\<open>Measurement.create\<close>\<close>

text \<open>
  Mongoose casts a value given for a \<^verbatim>\<open>String\<close> path: a string is kept, a number or a
  boolean is rendered by its \<^verbatim>\<open>toString\<close>, an object carrying a string \<^verbatim>\<open>_id\<close> is read
  as that id, and an array or any other object is a cast error. The rendering of a number
  is JavaScript's own and is taken as the parameter \<open>ns\<close>.
\<close>

fun castString :: "(real \<Rightarrow> string) \<Rightarrow> json \<Rightarrow> string option" where
  "castString ns (JStr s) = Some s"
| "castString ns (JNum x) = Some (ns x)"
| "castString ns (JBool b) = Some (if b then ''true'' else ''false'')"
| "castString ns (JObj kvs) =
     (case map_of kvs ''_id'' of
        Some (JStr s) \<Rightarrow> if s \<noteq> [] then Some s else None
      | _ \<Rightarrow> None)"
| "castString ns (JArr xs) = None"
| "castString ns JNull = None"

text \<open>\<^verbatim>\<open>enum: ["LineString", "Polygon"]\<close> of the path \<^verbatim>\<open>type\<close>.\<close>

definition type_enum :: "string list" where
  "type_enum = [''LineString'', ''Polygon'']"

text \<open>
  One path each: \<^verbatim>\<open>type\<close> is a required string of the enum, \<^verbatim>\<open>geojson\<close> is a required
  value of any shape, \<^verbatim>\<open>unit\<close> is a required (hence non-empty) string. \<^verbatim>\<open>value\<close> is a
  number already when \<^verbatim>\<open>create\<close> is called. The result lists the paths that fail, in
  schema order.
\<close>

definition type_ok :: "(real \<Rightarrow> string) \<Rightarrow> json \<Rightarrow> bool" where
  "type_ok ns t = (case castString ns t of None \<Rightarrow> False | Some s \<Rightarrow> s \<in> set type_enum)"

definition geojson_ok :: "json \<Rightarrow> bool" where
  "geojson_ok g = (g \<noteq> JNull)"

definition unit_ok :: "(real \<Rightarrow> string) \<Rightarrow> json \<Rightarrow> bool" where
  "unit_ok ns u = (case castString ns u of None \<Rightarrow> False | Some s \<Rightarrow> s \<noteq> [])"

definition invalid_paths :: "(real \<Rightarrow> string) \<Rightarrow> json \<Rightarrow> json \<Rightarrow> json \<Rightarrow> string list" where
  "invalid_paths ns t g u =
     (if type_ok ns t then [] else [''type'']) @
     (if geojson_ok g then [] else [''geojson'']) @
     (if unit_ok ns u then [] else [''unit''])"

text \<open>
  \<^verbatim>\<open>Measurement.create({ type, geojson, value, unit })\<close>: the document is validated
  first; a valid one is inserted at the end of the collection with a fresh id and both
  timestamps set to the current time \<open>now\<close>. The call rejects, and the store is left as
  it was, when validation fails or the database cannot be reached. The last case is
  never taken: a \<^verbatim>\<open>type\<close> and a \<^verbatim>\<open>unit\<close> that are valid have been cast.
\<close>

definition create ::
  "(real \<Rightarrow> string) \<Rightarrow> nat \<Rightarrow> store \<Rightarrow> json \<Rightarrow> json \<Rightarrow> real \<Rightarrow> json \<Rightarrow> (error + measurement) \<times> store" where
  "create ns now s t g v u =
     (case invalid_paths ns t g u of
        p # ps \<Rightarrow> (Inl (ValidationError (p # ps)), s)
      | [] \<Rightarrow>
          (case fault s of
             Some msg \<Rightarrow> (Inl (StoreError msg), s)
           | None \<Rightarrow>
               (case (castString ns t, castString ns u) of
                  (Some ts, Some us) \<Rightarrow>
                    (let d = \<lparr>m_id = next_id s, m_type = ts, m_geojson = minimize g, m_value = v,
                               m_unit = us, createdAt = now, updatedAt = now\<rparr>
                     in (Inr d, s\<lparr>docs := docs s @ [d], next_id := Suc (next_id s)\<rparr>))
                | _ \<Rightarrow> (Inl (ValidationError [''type'', ''unit'']), s))))"

subsection \<open>Queries\<close>

text \<open>
  \<^verbatim>\<open>.sort({ createdAt: -1 })\<close>: descending by creation time. Documents with the same
  \<^verbatim>\<open>createdAt\<close> are kept in natural order here; the schema gives the store no second
  sort key.
\<close>

fun insert_desc :: "measurement \<Rightarrow> measurement list \<Rightarrow> measurement list" where
  "insert_desc d [] = [d]"
| "insert_desc d (e # es) =
     (if createdAt e \<le> createdAt d then d # e # es else e # insert_desc d es)"

fun sort_desc :: "measurement list \<Rightarrow> measurement list" where
  "sort_desc [] = []"
| "sort_desc (d # ds) = insert_desc d (sort_desc ds)"

text \<open>
  \<^verbatim>\<open>Measurement.find().sort({ createdAt: -1 })\<close>: the documents, or the message of the
  error the query rejects with.
\<close>

definition find_sorted :: "store \<Rightarrow> string + measurement list" where
  "find_sorted s =
     (case fault s of
        Some msg \<Rightarrow> Inl msg
      | None \<Rightarrow> Inr (sort_desc (docs s)))"

text \<open>\<^verbatim>\<open>Measurement.findOne().sort({ createdAt: -1 })\<close>: the first of that order, or null.\<close>

definition findOne_sorted :: "store \<Rightarrow> string + measurement option" where
  "findOne_sorted s =
     (case find_sorted s of
        Inl e \<Rightarrow> Inl e
      | Inr [] \<Rightarrow> Inr None
      | Inr (d # ds) \<Rightarrow> Inr (Some d))"

text \<open>Removing the first document of the collection that has the given id.\<close>

fun remove_id :: "nat \<Rightarrow> measurement list \<Rightarrow> measurement list" where
  "remove_id i [] = []"
| "remove_id i (d # ds) = (if m_id d = i then ds else d # remove_id i ds)"

text \<open>\<^verbatim>\<open>Measurement.findByIdAndDelete(id)\<close>.\<close>

definition findByIdAndDelete :: "nat \<Rightarrow> store \<Rightarrow> string + store" where
  "findByIdAndDelete i s =
     (case fault s of
        Some msg \<Rightarrow> Inl msg
      | None \<Rightarrow> Inr (s\<lparr>docs := remove_id i (docs s)\<rparr>))"

section \<open>The request handlers of server.js\<close>

definition json_response :: "nat \<Rightarrow> json \<Rightarrow> response" where
  "json_response st j = \<lparr>status = st, body = Json j\<rparr>"

text \<open>Lines 10 to 13: \<^verbatim>\<open>GET /api/health\<close>. The handler reads nothing of the store.\<close>

definition get_health :: "store \<Rightarrow> result" where
  "get_health s = (Inr (json_response 200 (JObj [(''ok'', JBool True)])), s)"

text \<open>Lines 48 to 50: \<^verbatim>\<open>GET /\<close>.\<close>

definition get_root :: "store \<Rightarrow> result" where
  "get_root s =
     (Inr \<lparr>status = 200,
           body = Text ''API is running. Try /api/health or /api/measurements''\<rparr>, s)"

text \<open>
  Lines 53 to 61: \<^verbatim>\<open>GET /api/measurements\<close>. The query is inside \<^verbatim>\<open>try\<close>; an error of
  the store is answered with 503 and the error's message.
\<close>

definition get_measurements :: "store \<Rightarrow> result" where
  "get_measurements s =
     (case find_sorted s of
        Inr items \<Rightarrow> (Inr \<lparr>status = 200, body = Docs items\<rparr>, s)
      | Inl msg \<Rightarrow>
          (Inr (json_response 503
             (JObj [(''error'', JStr ''Database unavailable''), (''details'', JStr msg)])), s))"

text \<open>
  Lines 64 to 73: \<^verbatim>\<open>POST /api/measurements\<close>. The guard of line 67 is kept as written.
  After it the four values are defined and \<^verbatim>\<open>value\<close> is a number, so the last case is
  never taken. There is no \<^verbatim>\<open>try\<close>: when \<^verbatim>\<open>create\<close> rejects, so does the handler.
\<close>

definition post_measurements :: "(real \<Rightarrow> string) \<Rightarrow> nat \<Rightarrow> store \<Rightarrow> json \<Rightarrow> result" where
  "post_measurements ns now s b =
     (let type = field b ''type''; geojson = field b ''geojson'';
          val = field b ''value''; unit = field b ''unit''
      in if \<not> truthy type \<or> \<not> truthy geojson \<or> \<not> is_number val \<or> \<not> truthy unit
         then (Inr (json_response 400 (JObj [(''error'', JStr ''Invalid payload'')])), s)
         else
           (case (type, geojson, val, unit) of
              (Some t, Some g, Some (JNum v), Some u) \<Rightarrow>
                (case create ns now s t g v u of
                   (Inl e, s') \<Rightarrow> (Inl e, s')
                 | (Inr saved, s') \<Rightarrow> (Inr \<lparr>status = 201, body = Doc saved\<rparr>, s'))
            | _ \<Rightarrow> (Inr (json_response 400 (JObj [(''error'', JStr ''Invalid payload'')])), s)))"

text \<open>
  Lines 76 to 83: \<^verbatim>\<open>DELETE /api/measurements/latest\<close>. The answer after the deletion
  is the constant \<^verbatim>\<open>{ deletedCount: 1 }\<close>.
\<close>

definition delete_latest :: "store \<Rightarrow> result" where
  "delete_latest s =
     (case findOne_sorted s of
        Inl msg \<Rightarrow> (Inl (StoreError msg), s)
      | Inr None \<Rightarrow>
          (Inr (json_response 404 (JObj [(''error'', JStr ''No measurements to delete'')])), s)
      | Inr (Some latest) \<Rightarrow>
          (case findByIdAndDelete (m_id latest) s of
             Inl msg \<Rightarrow> (Inl (StoreError msg), s)
           | Inr s' \<Rightarrow> (Inr (json_response 200 (JObj [(''deletedCount'', JNum 1)])), s')))"

text \<open>Lines 86 to 88: the last middleware, reached when no route answered.\<close>

definition not_found :: "store \<Rightarrow> result" where
  "not_found s = (Inr (json_response 404 (JObj [(''error'', JStr ''Not found'')])), s)"

section \<open>The application: middleware and routes in the order of server.js\<close>

datatype http_method = GET | HEAD | POST | PUT | PATCH | DELETE | OPTIONS

text \<open>
  What the request carries as its body: nothing that the JSON parser reads, text that
  is not JSON, or a JSON value.
\<close>

datatype raw_body = NoBody | BadJson | JsonBody json

record request =
  req_method :: http_method
  req_path :: string
  req_body :: raw_body

text \<open>
  Express matches a route path without regard to letter case and allows one trailing
  slash (the defaults; server.js sets neither \<^verbatim>\<open>case sensitive routing\<close> nor
  \<^verbatim>\<open>strict routing\<close>). \<open>req_path\<close> is the path without the query string.
\<close>

definition lower :: "char \<Rightarrow> char" where
  "lower c =
     (if (65::nat) \<le> of_char c \<and> of_char c \<le> (90::nat)
      then char_of (of_char c + (32::nat)) else c)"

definition strip_slash :: "string \<Rightarrow> string" where
  "strip_slash p = (if p \<noteq> [] \<and> last p = CHR ''/'' then butlast p else p)"

definition path_matches :: "string \<Rightarrow> string \<Rightarrow> bool" where
  "path_matches pat p =
     (let q = map lower p; base = map lower (strip_slash pat)
      in q = base \<or> q = base @ ''/'')"

text \<open>
  A route registered with \<^verbatim>\<open>app.get\<close> also answers HEAD requests (the handler runs as
  for GET; the body it writes is then not sent).
\<close>

fun handles :: "http_method \<Rightarrow> http_method \<Rightarrow> bool" where
  "handles GET m = (m = GET \<or> m = HEAD)"
| "handles r m = (m = r)"

definition route_matches :: "http_method \<Rightarrow> string \<Rightarrow> request \<Rightarrow> bool" where
  "route_matches r pat req = (handles r (req_method req) \<and> path_matches pat (req_path req))"

text \<open>
  Line 17, \<^verbatim>\<open>express.json()\<close>: a request without a JSON body is given the empty object
  (the body parser of Express 4); the parser is strict, so only an object or an array is
  accepted, and anything else is an error passed on instead of a body.
\<close>

fun express_json :: "raw_body \<Rightarrow> error + json" where
  "express_json NoBody = Inr (JObj [])"
| "express_json BadJson = Inl BodyParseError"
| "express_json (JsonBody (JObj kvs)) = Inr (JObj kvs)"
| "express_json (JsonBody (JArr xs)) = Inr (JArr xs)"
| "express_json (JsonBody j) = Inl BodyParseError"

text \<open>
  The chain in source order. The health route is registered first (line 10), before any
  middleware. \<^verbatim>\<open>cors()\<close> (line 16) answers every OPTIONS request itself, as a preflight,
  with 204 and no body. \<^verbatim>\<open>express.json()\<close> (line 17) passes its error on, so no route
  runs. The logger (lines 20 to 23) only prints. Then the routes, then the last
  middleware.
\<close>

definition app :: "(real \<Rightarrow> string) \<Rightarrow> nat \<Rightarrow> store \<Rightarrow> request \<Rightarrow> result" where
  "app ns now s req =
     (if route_matches GET ''/api/health'' req then get_health s
      else if req_method req = OPTIONS then (Inr \<lparr>status = 204, body = Empty\<rparr>, s)
      else
        (case express_json (req_body req) of
           Inl e \<Rightarrow> (Inl e, s)
         | Inr b \<Rightarrow>
             if route_matches GET ''/'' req then get_root s
             else if route_matches GET ''/api/measurements'' req then get_measurements s
             else if route_matches POST ''/api/measurements'' req
               then post_measurements ns now s b
             else if route_matches DELETE ''/api/measurements/latest'' req
               then delete_latest s
             else not_found s))"

text \<open>
  The routes the interface table of the specification lists (with the root page of
  line 48), to say what "matches none of the defined routes" means.
\<close>

definition defined_routes :: "(http_method \<times> string) list" where
  "defined_routes =
     [(GET, ''/api/health''), (GET, ''/''), (GET, ''/api/measurements''),
      (POST, ''/api/measurements''), (DELETE, ''/api/measurements/latest'')]"

definition unmatched :: "request \<Rightarrow> bool" where
  "unmatched req = (list_all (\<lambda>(r, pat). \<not> route_matches r pat req) defined_routes)"

section \<open>The client: \<^verbatim>\<open>finishDrawing\<close>\<close>

subsection \<open>From a drawn feature to the body of a create call\<close>

text \<open>
  A coordinate is an array of numbers. A drawn geometry is a line (its vertices), a
  polygon (its rings, the outer one first) or a geometry of some other type. A feature
  may have no geometry.
\<close>

type_synonym coordinate = "real list"

datatype geometry =
    LineString "coordinate list"
  | Polygon "coordinate list list"
  | OtherGeometry

type_synonym feature = "geometry option"

text \<open>
  The functions of OpenLayers that \<^verbatim>\<open>finishDrawing\<close> calls are parameters: the
  transform of one coordinate from EPSG:3857 to EPSG:4326, and \<^verbatim>\<open>getLength\<close> and
  \<^verbatim>\<open>getArea\<close> of \<^verbatim>\<open>ol/sphere\<close> for the projection EPSG:4326.
\<close>

record ol =
  to4326 :: "coordinate \<Rightarrow> coordinate"
  getLength :: "coordinate list \<Rightarrow> real"
  getArea :: "coordinate list list \<Rightarrow> real"

text \<open>\<^verbatim>\<open>clone.transform('EPSG:3857', 'EPSG:4326')\<close>: every coordinate, the type unchanged.\<close>

fun transform :: "ol \<Rightarrow> geometry \<Rightarrow> geometry" where
  "transform lib (LineString cs) = LineString (map (to4326 lib) cs)"
| "transform lib (Polygon rs) = Polygon (map (map (to4326 lib)) rs)"
| "transform lib OtherGeometry = OtherGeometry"

record payload =
  p_type :: string
  p_geojson :: json
  p_value :: real
  p_unit :: string

text \<open>The unit of an area: the letter m and the superscript two (U+00B2).\<close>

definition unit_m2 :: string where
  "unit_m2 = [CHR ''m'', CHR 0xB2]"

definition coords_json :: "coordinate list \<Rightarrow> json" where
  "coords_json cs = JArr (map (\<lambda>c. JArr (map JNum c)) cs)"

text \<open>
  \<^verbatim>\<open>poly.getCoordinates()[0]\<close>: the first ring; \<^verbatim>\<open>undefined\<close> when there is none, which
  an array serialises as \<^verbatim>\<open>null\<close>.
\<close>

definition first_ring_json :: "coordinate list list \<Rightarrow> json" where
  "first_ring_json rs = (case rs of [] \<Rightarrow> JNull | r # _ \<Rightarrow> coords_json r)"

text \<open>Lines 141 to 144: the GeoJSON Feature around the coordinates.\<close>

definition geojson_feature :: "string \<Rightarrow> json \<Rightarrow> json" where
  "geojson_feature gType coordinates =
     JObj [(''type'', JStr ''Feature''),
           (''geometry'', JObj [(''type'', JStr gType), (''coordinates'', coordinates)])]"

text \<open>
  Lines 121 to 146, the body of the loop: \<open>None\<close> is \<^verbatim>\<open>continue\<close> (no geometry, or a
  type that is neither of the two).
\<close>

fun payload_of :: "ol \<Rightarrow> feature \<Rightarrow> payload option" where
  "payload_of lib None = None"
| "payload_of lib (Some geom) =
     (case transform lib geom of
        LineString coords \<Rightarrow>
          Some \<lparr>p_type = ''LineString'',
                p_geojson = geojson_feature ''LineString'' (coords_json coords),
                p_value = getLength lib coords, p_unit = ''m''\<rparr>
      | Polygon rings \<Rightarrow>
          Some \<lparr>p_type = ''Polygon'',
                p_geojson = geojson_feature ''Polygon'' (JArr [first_ring_json rings]),
                p_value = getArea lib rings, p_unit = unit_m2\<rparr>
      | OtherGeometry \<Rightarrow> None)"

text \<open>The request body of \<^verbatim>\<open>http.post(API + '/measurements', body)\<close>.\<close>

definition payload_body :: "payload \<Rightarrow> json" where
  "payload_body p =
     JObj [(''type'', JStr (p_type p)), (''geojson'', p_geojson p),
           (''value'', JNum (p_value p)), (''unit'', JStr (p_unit p))]"

subsection \<open>Submitting the batch\<close>

text \<open>
  The texts \<^verbatim>\<open>lastInfo\<close> takes in \<^verbatim>\<open>finishDrawing\<close>, in source order: line 115
  ("Nothing to save. Draw a line or polygon first, then click Finish."), line 152
  ("Nothing to save."), line 164 ("Your data are saved and are available.") and
  line 172 ("Failed to save. Is the server running?"); any other text is \<open>OtherInfo\<close>.
\<close>

datatype info =
    NothingToSaveDrawFirst
  | NothingToSave
  | DataSaved
  | FailedToSave
  | OtherInfo string

record client =
  savedSource :: "feature list"
  pendingSource :: "feature list"
  drawInteraction :: "string option"
  lastInfo :: info

text \<open>Lines 99 to 109.\<close>

definition stopDrawing :: "client \<Rightarrow> client" where
  "stopDrawing c = (case drawInteraction c of None \<Rightarrow> c | Some d \<Rightarrow> c\<lparr>drawInteraction := None\<rparr>)"

text \<open>
  The variables the callbacks of one call of \<^verbatim>\<open>finishDrawing\<close> close over: the
  features read at line 113, \<^verbatim>\<open>total\<close>, \<^verbatim>\<open>done\<close> (here \<open>done_count\<close>) and
  \<^verbatim>\<open>failed\<close>.
\<close>

record batch =
  features :: "feature list"
  total :: nat
  done_count :: nat
  failed :: bool

text \<open>
  Lines 111 to 156, the synchronous part: the client state it leaves and, when create
  calls are sent, their bodies in order and the fresh closure.
\<close>

definition finishDrawing :: "ol \<Rightarrow> client \<Rightarrow> client \<times> (payload list \<times> batch) option" where
  "finishDrawing lib c0 =
     (let c = stopDrawing c0; fs = pendingSource c
      in if length fs = 0 then (c\<lparr>lastInfo := NothingToSaveDrawFirst\<rparr>, None)
         else
           (let payloads = List.map_filter (payload_of lib) fs; n = length payloads
            in if n = 0 then (c\<lparr>lastInfo := NothingToSave\<rparr>, None)
               else (c, Some (payloads, \<lparr>features = fs, total = n, done_count = 0, failed = False\<rparr>))))"

text \<open>Lines 158 to 168: the \<^verbatim>\<open>next\<close> callback of one create call.\<close>

definition on_next :: "batch \<times> client \<Rightarrow> batch \<times> client" where
  "on_next bc =
     (let b = (fst bc)\<lparr>done_count := Suc (done_count (fst bc))\<rparr>; c = snd bc
      in if \<not> failed b \<and> done_count b = total b
         then (b, c\<lparr>savedSource := savedSource c @ features b, pendingSource := [],
                    lastInfo := DataSaved\<rparr>)
         else (b, c))"

text \<open>Lines 169 to 175: the \<^verbatim>\<open>error\<close> callback of one create call.\<close>

definition on_error :: "batch \<times> client \<Rightarrow> batch \<times> client" where
  "on_error bc = ((fst bc)\<lparr>failed := True\<rparr>, (snd bc)\<lparr>lastInfo := FailedToSave\<rparr>)"

text \<open>
  The create calls are sent together and answered in any order: the outcomes, in the
  order in which the answers arrive (\<open>True\<close> a success, \<open>False\<close> a failure), run the
  callbacks one after the other.
\<close>

fun deliver :: "bool list \<Rightarrow> batch \<times> client \<Rightarrow> batch \<times> client" where
  "deliver [] bc = bc"
| "deliver (ok # rs) bc = deliver rs (if ok then on_next bc else on_error bc)"

text \<open>The client state once every create call of a \<^verbatim>\<open>finishDrawing\<close> is answered.\<close>

definition finish_then :: "ol \<Rightarrow> client \<Rightarrow> bool list \<Rightarrow> client" where
  "finish_then lib c0 rs =
     (case finishDrawing lib c0 of
        (c, None) \<Rightarrow> c
      | (c, Some (payloads, b)) \<Rightarrow> snd (deliver rs (b, c)))"

section \<open>Sample values\<close>

text \<open>Concrete inputs at which the theorems below are instantiated.\<close>

abbreviation no_ns :: "real \<Rightarrow> string" where
  "no_ns \<equiv> (\<lambda>x. [])"

abbreviation empty_store :: store where
  "empty_store \<equiv> \<lparr>docs = [], next_id = 0, fault = None\<rparr>"

abbreviation line_feature :: json where
  "line_feature \<equiv>
     JObj [(''type'', JStr ''Feature''),
           (''geometry'', JObj [(''type'', JStr ''LineString''),
                                (''coordinates'', JArr [JArr [JNum 0, JNum 0], JArr [JNum 1, JNum 1]])])]"

abbreviation body_with :: "json \<Rightarrow> json \<Rightarrow> json \<Rightarrow> json" where
  "body_with t v u \<equiv>
     JObj [(''type'', t), (''geojson'', line_feature), (''value'', v), (''unit'', u)]"

abbreviation unit_lib :: ol where
  "unit_lib \<equiv> \<lparr>to4326 = (\<lambda>c. c), getLength = (\<lambda>cs. 1), getArea = (\<lambda>rs. 1)\<rparr>"

abbreviation segment :: feature where
  "segment \<equiv> Some (LineString [[0, 0], [1, 1]])"

abbreviation doc_A :: measurement where
  "doc_A \<equiv> \<lparr>m_id = 0, m_type = ''LineString'', m_geojson = Some line_feature,
              m_value = 5,
              m_unit = ''m'', createdAt = 2, updatedAt = 2\<rparr>"

abbreviation doc_B :: "nat \<Rightarrow> measurement" where
  "doc_B t \<equiv> \<lparr>m_id = 1, m_type = ''LineString'', m_geojson = Some line_feature,
                m_value = 7,
                m_unit = ''m'', createdAt = t, updatedAt = t\<rparr>"

abbreviation three_pending :: client where
  "three_pending \<equiv>
     \<lparr>savedSource = [], pendingSource = [segment, segment, segment],
      drawInteraction = Some ''LineString'',
      lastInfo = OtherInfo ''Draw a line. Click Finish to save.''\<rparr>"

section \<open>Facts about the store\<close>

lemma clone_id:
  "no_empty_object j \<Longrightarrow> clone j = j"
  "no_empty_props kvs \<Longrightarrow> clone_props kvs = kvs"
  "no_empty_items xs \<Longrightarrow> clone_items xs = xs"
proof (induction j and kvs and xs rule: clone_clone_props_clone_items.induct)
  case (8 k v kvs)
  then show ?case by (cases v) auto
qed auto

lemma minimize_id: "no_empty_object j \<Longrightarrow> minimize j = Some j"
  using clone_id(1) [of j] by (cases j) (auto simp: minimize_def)

lemma mset_insert_desc: "mset (insert_desc d ds) = add_mset d (mset ds)"
  by (induction ds) auto

lemma mset_sort_desc: "mset (sort_desc ds) = mset ds"
  by (induction ds) (auto simp: mset_insert_desc)

lemma set_insert_desc: "set (insert_desc d ds) = insert d (set ds)"
  by (induction ds) auto

lemma set_sort_desc: "set (sort_desc ds) = set ds"
  by (induction ds) (auto simp: set_insert_desc)

lemma sorted_insert_desc:
  "sorted_wrt (\<lambda>a b. createdAt b \<le> createdAt a) ds \<Longrightarrow>
   sorted_wrt (\<lambda>a b. createdAt b \<le> createdAt a) (insert_desc d ds)"
  by (induction ds) (auto simp: set_insert_desc)

lemma sorted_sort_desc: "sorted_wrt (\<lambda>a b. createdAt b \<le> createdAt a) (sort_desc ds)"
  by (induction ds) (auto simp: sorted_insert_desc)

lemma sort_desc_eq_Nil: "sort_desc ds = [] \<longleftrightarrow> ds = []"
  by (metis mset_sort_desc mset_zero_iff)

lemma sort_desc_head:
  assumes "sort_desc ds = d # rest"
  shows "d \<in> set ds" and "\<And>e. e \<in> set ds \<Longrightarrow> createdAt e \<le> createdAt d"
proof -
  have s: "set ds = insert d (set rest)"
    using assms set_sort_desc [of ds] by simp
  show "d \<in> set ds" using s by simp
  have "sorted_wrt (\<lambda>a b. createdAt b \<le> createdAt a) (d # rest)"
    using assms sorted_sort_desc [of ds] by simp
  then have "\<forall>e\<in>set rest. createdAt e \<le> createdAt d" by simp
  then show "\<And>e. e \<in> set ds \<Longrightarrow> createdAt e \<le> createdAt d"
    using s by auto
qed

lemma remove_id_remove1:
  "distinct (map m_id ds) \<Longrightarrow> d \<in> set ds \<Longrightarrow> remove_id (m_id d) ds = remove1 d ds"
proof (induction ds)
  case Nil
  then show ?case by simp
next
  case (Cons e es)
  show ?case
  proof (cases "e = d")
    case True
    then show ?thesis by simp
  next
    case False
    with Cons.prems have "d \<in> set es" by simp
    with Cons.prems have "m_id e \<noteq> m_id d" by force
    with Cons False \<open>d \<in> set es\<close> show ?thesis by simp
  qed
qed

section \<open>Facts about the create handler\<close>

lemma post_rejects:
  "\<not> truthy (field b ''type'') \<or> \<not> truthy (field b ''geojson'') \<or>
   \<not> is_number (field b ''value'') \<or> \<not> truthy (field b ''unit'') \<Longrightarrow>
   post_measurements ns now s b =
     (Inr (json_response 400 (JObj [(''error'', JStr ''Invalid payload'')])), s)"
  by (auto simp: post_measurements_def Let_def)

lemma truthy_Some: "truthy x \<Longrightarrow> \<exists>j. x = Some j"
  by (cases x) auto

lemma is_number_Some: "is_number x \<Longrightarrow> \<exists>v. x = Some (JNum v)"
  by (cases x rule: is_number.cases) auto

lemma post_passes:
  assumes "field b ''type'' = Some t" and "field b ''geojson'' = Some g"
    and "field b ''value'' = Some (JNum v)" and "field b ''unit'' = Some u"
    and "truthy (Some t)" and "truthy (Some g)" and "truthy (Some u)"
  shows "post_measurements ns now s b =
     (case create ns now s t g v u of
        (Inl e, s') \<Rightarrow> (Inl e, s')
      | (Inr saved, s') \<Rightarrow> (Inr \<lparr>status = 201, body = Doc saved\<rparr>, s'))"
  using assms by (simp add: post_measurements_def Let_def)

lemma create_outcomes:
  "create ns now s t g v u = (r, s') \<Longrightarrow>
   (\<exists>e. r = Inl e \<and> s' = s) \<or>
   (\<exists>d. r = Inr d \<and> m_value d = v \<and> m_geojson d = minimize g \<and> m_id d = next_id s \<and>
        createdAt d = now \<and> updatedAt d = now \<and> fault s = None \<and>
        castString ns t = Some (m_type d) \<and> castString ns u = Some (m_unit d) \<and>
        s' = s\<lparr>docs := docs s @ [d], next_id := Suc (next_id s)\<rparr>)"
  by (auto simp: create_def Let_def split: list.splits option.splits)

lemma create_valid:
  assumes "t \<in> set type_enum" and "u \<noteq> []" and "g \<noteq> JNull" and "fault s = None"
  shows "create ns now s (JStr t) g v (JStr u) =
     (let d = \<lparr>m_id = next_id s, m_type = t, m_geojson = minimize g, m_value = v, m_unit = u,
                createdAt = now, updatedAt = now\<rparr>
      in (Inr d, s\<lparr>docs := docs s @ [d], next_id := Suc (next_id s)\<rparr>))"
  using assms
  by (simp add: create_def invalid_paths_def type_ok_def geojson_ok_def unit_ok_def Let_def)

lemma post_400_iff:
  "fst (post_measurements ns now s b) =
      Inr (json_response 400 (JObj [(''error'', JStr ''Invalid payload'')])) \<longleftrightarrow>
   \<not> truthy (field b ''type'') \<or> \<not> truthy (field b ''geojson'') \<or>
   \<not> is_number (field b ''value'') \<or> \<not> truthy (field b ''unit'')"
proof (cases "truthy (field b ''type'') \<and> truthy (field b ''geojson'') \<and>
    is_number (field b ''value'') \<and> truthy (field b ''unit'')")
  case False
  then show ?thesis using post_rejects [of b ns now s] by auto
next
  case True
  then obtain t g v u where f: "field b ''type'' = Some t" "field b ''geojson'' = Some g"
      "field b ''value'' = Some (JNum v)" "field b ''unit'' = Some u"
    using truthy_Some is_number_Some by metis
  obtain r s' where c: "create ns now s t g v u = (r, s')" by (cases "create ns now s t g v u")
  have "post_measurements ns now s b =
     (case create ns now s t g v u of
        (Inl e, s') \<Rightarrow> (Inl e, s')
      | (Inr saved, s') \<Rightarrow> (Inr \<lparr>status = 201, body = Doc saved\<rparr>, s'))"
    using post_passes [OF f] True f by simp
  then have "fst (post_measurements ns now s b) \<noteq>
      Inr (json_response 400 (JObj [(''error'', JStr ''Invalid payload'')]))"
    using c by (cases r) (auto simp: json_response_def)
  then show ?thesis using True by simp
qed

lemma post_outcomes:
  assumes p: "post_measurements ns now s b = (r, s')"
  shows "(s' = s \<and> (\<forall>d. r \<noteq> Inr \<lparr>status = 201, body = Doc d\<rparr>)) \<or>
   (\<exists>d. r = Inr \<lparr>status = 201, body = Doc d\<rparr> \<and>
      field b ''value'' = Some (JNum (m_value d)) \<and> m_id d = next_id s \<and>
      createdAt d = now \<and> fault s = None \<and>
      s' = s\<lparr>docs := docs s @ [d], next_id := Suc (next_id s)\<rparr>)"
proof (cases "truthy (field b ''type'') \<and> truthy (field b ''geojson'') \<and>
    is_number (field b ''value'') \<and> truthy (field b ''unit'')")
  case False
  then show ?thesis using p post_rejects [of b ns now s] by (auto simp: json_response_def)
next
  case True
  obtain t g v u where f: "field b ''type'' = Some t" "field b ''geojson'' = Some g"
      "field b ''value'' = Some (JNum v)" "field b ''unit'' = Some u"
    using True truthy_Some is_number_Some by metis
  obtain r0 s0 where c: "create ns now s t g v u = (r0, s0)"
    by (cases "create ns now s t g v u")
  have pp: "post_measurements ns now s b =
     (case create ns now s t g v u of
        (Inl e, s') \<Rightarrow> (Inl e, s')
      | (Inr saved, s') \<Rightarrow> (Inr \<lparr>status = 201, body = Doc saved\<rparr>, s'))"
    using post_passes [OF f] True f by simp
  from create_outcomes [OF c] show ?thesis
  proof
    assume "\<exists>e. r0 = Inl e \<and> s0 = s"
    then show ?thesis using pp p c by auto
  next
    assume "\<exists>d. r0 = Inr d \<and> m_value d = v \<and> m_geojson d = minimize g \<and>
        m_id d = next_id s \<and>
        createdAt d = now \<and> updatedAt d = now \<and> fault s = None \<and>
        castString ns t = Some (m_type d) \<and> castString ns u = Some (m_unit d) \<and>
        s0 = s\<lparr>docs := docs s @ [d], next_id := Suc (next_id s)\<rparr>"
    then show ?thesis using pp p c f by auto
  qed
qed

lemma post_created:
  assumes "post_measurements ns now s b = (Inr \<lparr>status = 201, body = Doc d\<rparr>, s')"
  shows "field b ''value'' = Some (JNum (m_value d))" and "m_id d = next_id s"
    and "createdAt d = now" and "fault s = None"
    and "s' = s\<lparr>docs := docs s @ [d], next_id := Suc (next_id s)\<rparr>"
  using post_outcomes [OF assms] by auto

lemma post_valid:
  assumes "field b ''type'' = Some (JStr t)" and "t \<in> set type_enum"
    and "field b ''geojson'' = Some g" and "truthy (Some g)"
    and "field b ''value'' = Some (JNum v)"
    and "field b ''unit'' = Some (JStr u)" and "u \<noteq> []" and "fault s = None"
  shows "post_measurements ns now s b =
      (Inr \<lparr>status = 201,
            body = Doc \<lparr>m_id = next_id s, m_type = t, m_geojson = minimize g, m_value = v,
                        m_unit = u, createdAt = now, updatedAt = now\<rparr>\<rparr>,
       s\<lparr>docs := docs s @ [\<lparr>m_id = next_id s, m_type = t, m_geojson = minimize g,
                               m_value = v,
                               m_unit = u, createdAt = now, updatedAt = now\<rparr>],
          next_id := Suc (next_id s)\<rparr>)"
proof -
  have tn: "t \<noteq> []" using assms(2) by (auto simp: type_enum_def)
  have gn: "g \<noteq> JNull" using assms(4) by auto
  have "post_measurements ns now s b =
     (case create ns now s (JStr t) g v (JStr u) of
        (Inl e, s') \<Rightarrow> (Inl e, s')
      | (Inr saved, s') \<Rightarrow> (Inr \<lparr>status = 201, body = Doc saved\<rparr>, s'))"
    using assms tn by (intro post_passes) auto
  then show ?thesis
    using create_valid [OF assms(2) assms(7) gn assms(8), of ns now v] by (simp add: Let_def)
qed

lemma post_A:
  "post_measurements no_ns 2 empty_store (body_with (JStr ''LineString'') (JNum 5) (JStr ''m''))
    = (Inr \<lparr>status = 201, body = Doc doc_A\<rparr>, \<lparr>docs = [doc_A], next_id = 1, fault = None\<rparr>)"
  by (simp add: post_measurements_def create_def invalid_paths_def type_ok_def geojson_ok_def
      unit_ok_def type_enum_def Let_def minimize_def)


section \<open>Facts about deleting the latest record\<close>

lemma delete_latest_two:
  assumes "docs s = [a, b]" and "createdAt a < createdAt b" and "m_id a \<noteq> m_id b"
    and "fault s = None"
  shows "delete_latest s =
     (Inr \<lparr>status = 200, body = Json (JObj [(''deletedCount'', JNum 1)])\<rparr>, s\<lparr>docs := [a]\<rparr>)"
  using assms
  by (simp add: delete_latest_def findOne_sorted_def find_sorted_def findByIdAndDelete_def
      json_response_def)

lemma delete_latest_general:
  assumes "fault s = None" and "docs s \<noteq> []" and "distinct (map m_id (docs s))"
  shows "\<exists>d. d \<in> set (docs s) \<and> (\<forall>e\<in>set (docs s). createdAt e \<le> createdAt d) \<and>
           delete_latest s =
             (Inr \<lparr>status = 200, body = Json (JObj [(''deletedCount'', JNum 1)])\<rparr>,
              s\<lparr>docs := remove1 d (docs s)\<rparr>)"
proof -
  obtain d rest where sd: "sort_desc (docs s) = d # rest"
    using assms(2) sort_desc_eq_Nil [of "docs s"] by (cases "sort_desc (docs s)") auto
  have mem: "d \<in> set (docs s)" and mx: "\<And>e. e \<in> set (docs s) \<Longrightarrow> createdAt e \<le> createdAt d"
    using sort_desc_head [OF sd] by auto
  have "delete_latest s =
      (Inr \<lparr>status = 200, body = Json (JObj [(''deletedCount'', JNum 1)])\<rparr>,
       s\<lparr>docs := remove_id (m_id d) (docs s)\<rparr>)"
    using assms(1) sd
    by (simp add: delete_latest_def findOne_sorted_def find_sorted_def findByIdAndDelete_def
        json_response_def)
  then show ?thesis
    using mem mx remove_id_remove1 [OF assms(3) mem] by auto
qed

lemma delete_latest_after_two_creates:
  assumes "docs s0 = []"
    and pa: "post_measurements ns tA s0 bA = (Inr \<lparr>status = 201, body = Doc a\<rparr>, s1)"
    and pb: "post_measurements ns tB s1 bB = (Inr \<lparr>status = 201, body = Doc b\<rparr>, s2)"
    and "tA < tB"
  shows "docs s2 = [a, b] \<and>
     delete_latest s2 =
       (Inr \<lparr>status = 200, body = Json (JObj [(''deletedCount'', JNum 1)])\<rparr>,
        s2\<lparr>docs := [a]\<rparr>) \<and>
     get_measurements (s2\<lparr>docs := [a]\<rparr>) =
       (Inr \<lparr>status = 200, body = Docs [a]\<rparr>, s2\<lparr>docs := [a]\<rparr>)"
proof -
  note A = post_created [OF pa] and B = post_created [OF pb]
  have d: "docs s2 = [a, b]" using A(5) B(5) assms(1) by simp
  have t: "createdAt a < createdAt b" using A(3) B(3) assms(4) by simp
  have i: "m_id a \<noteq> m_id b" using A(2,5) B(2) by simp
  have f: "fault s2 = None" using B(4,5) by simp
  show ?thesis
    using d delete_latest_two [OF d t i f] f
    by (simp add: get_measurements_def find_sorted_def)
qed

section \<open>Facts about the batch callbacks\<close>

lemma deliver_failed:
  "failed b \<Longrightarrow>
   savedSource (snd (deliver rs (b, c))) = savedSource c \<and>
   pendingSource (snd (deliver rs (b, c))) = pendingSource c \<and>
   lastInfo (snd (deliver rs (b, c))) = (if False \<in> set rs then FailedToSave else lastInfo c)"
proof (induction rs arbitrary: b c)
  case Nil
  then show ?case by simp
next
  case (Cons ok rs)
  show ?case
  proof (cases ok)
    case True
    have "failed (fst (on_next (b, c)))" and "snd (on_next (b, c)) = c"
      using Cons.prems by (simp_all add: on_next_def Let_def)
    then show ?thesis
      using True Cons.IH [of "fst (on_next (b, c))" "snd (on_next (b, c))"]
      by (cases "on_next (b, c)") simp
  next
    case False
    have "failed (fst (on_error (b, c)))" by (simp add: on_error_def)
    then show ?thesis
      using False Cons.IH [of "fst (on_error (b, c))" "snd (on_error (b, c))"]
      by (cases "on_error (b, c)") (auto simp: on_error_def)
  qed
qed

lemma deliver_with_failure:
  "False \<in> set rs \<Longrightarrow> done_count b + length rs \<le> total b \<Longrightarrow>
   savedSource (snd (deliver rs (b, c))) = savedSource c \<and>
   pendingSource (snd (deliver rs (b, c))) = pendingSource c \<and>
   lastInfo (snd (deliver rs (b, c))) = FailedToSave"
proof (induction rs arbitrary: b c)
  case Nil
  then show ?case by simp
next
  case (Cons ok rs)
  show ?case
  proof (cases ok)
    case True
    with Cons.prems have mem: "False \<in> set rs" by simp
    then have "rs \<noteq> []" by auto
    then have lt: "Suc (done_count b) < total b"
      using Cons.prems(2) by (cases rs) auto
    then have step: "on_next (b, c) = (b\<lparr>done_count := Suc (done_count b)\<rparr>, c)"
      by (simp add: on_next_def Let_def)
    have "done_count (b\<lparr>done_count := Suc (done_count b)\<rparr>) + length rs
          \<le> total (b\<lparr>done_count := Suc (done_count b)\<rparr>)"
      using Cons.prems(2) by simp
    from Cons.IH [OF mem this, of c] show ?thesis using True step by simp
  next
    case False
    have step: "on_error (b, c) = (b\<lparr>failed := True\<rparr>, c\<lparr>lastInfo := FailedToSave\<rparr>)"
      by (simp add: on_error_def)
    have "failed (b\<lparr>failed := True\<rparr>)" by simp
    from deliver_failed [OF this, of rs "c\<lparr>lastInfo := FailedToSave\<rparr>"]
    show ?thesis using False step by simp
  qed
qed

lemma finish_three:
  "finishDrawing unit_lib three_pending =
     (three_pending\<lparr>drawInteraction := None\<rparr>,
      Some (List.map_filter (payload_of unit_lib) [segment, segment, segment],
            \<lparr>features = [segment, segment, segment], total = 3, done_count = 0, failed = False\<rparr>))"
  by (simp add: finishDrawing_def stopDrawing_def Let_def)

section \<open>Facts about routing\<close>

lemma health_path: "path_matches ''/api/health'' ''/api/health''"
  by code_simp

lemma unmatched_routes:
  "unmatched req \<Longrightarrow>
   \<not> route_matches GET ''/api/health'' req \<and> \<not> route_matches GET ''/'' req \<and>
   \<not> route_matches GET ''/api/measurements'' req \<and>
   \<not> route_matches POST ''/api/measurements'' req \<and>
   \<not> route_matches DELETE ''/api/measurements/latest'' req"
  by (simp add: unmatched_def defined_routes_def)

lemma delete_all_unmatched:
  "unmatched \<lparr>req_method = DELETE, req_path = ''/api/measurements'', req_body = rb\<rparr>"
  by (simp add: unmatched_def defined_routes_def route_matches_def) code_simp

section \<open>The properties of the specification\<close>

subsection \<open>C1: the create call\<close>

text \<open>
  C1, as the handler and the schema have it. \<^verbatim>\<open>POST /api/measurements\<close> answers 400
  "Invalid payload" exactly when \<^verbatim>\<open>type\<close> is falsy, \<^verbatim>\<open>geojson\<close> is falsy, \<^verbatim>\<open>value\<close> is
  not a number or \<^verbatim>\<open>unit\<close> is falsy, and then the store is unchanged. A request that
  passes the check with \<^verbatim>\<open>type\<close> one of the two strings of the schema's enum and \<^verbatim>\<open>unit\<close>
  a string, on a store that can be reached, appends one record and answers 201 with it:
  its \<^verbatim>\<open>type\<close>, \<^verbatim>\<open>value\<close> and \<^verbatim>\<open>unit\<close> are the submitted ones, its \<^verbatim>\<open>geojson\<close> is the
  submitted one without its empty objects, which is the submitted one when it holds
  none, its id is the store's next id and both timestamps are the time of the call.
\<close>

theorem post_measurements_contract:
  "(fst (post_measurements ns now s b) =
      Inr (json_response 400 (JObj [(''error'', JStr ''Invalid payload'')])) \<longleftrightarrow>
    \<not> truthy (field b ''type'') \<or> \<not> truthy (field b ''geojson'') \<or>
    \<not> is_number (field b ''value'') \<or> \<not> truthy (field b ''unit'')) \<and>
   (fst (post_measurements ns now s b) =
      Inr (json_response 400 (JObj [(''error'', JStr ''Invalid payload'')])) \<longrightarrow>
    snd (post_measurements ns now s b) = s) \<and>
   (field b ''type'' = Some (JStr t) \<and> t \<in> set type_enum \<and>
    field b ''geojson'' = Some g \<and> truthy (Some g) \<and>
    field b ''value'' = Some (JNum v) \<and>
    field b ''unit'' = Some (JStr u) \<and> u \<noteq> [] \<and> fault s = None \<longrightarrow>
    post_measurements ns now s b =
      (Inr \<lparr>status = 201,
            body = Doc \<lparr>m_id = next_id s, m_type = t, m_geojson = minimize g, m_value = v,
                        m_unit = u, createdAt = now, updatedAt = now\<rparr>\<rparr>,
       s\<lparr>docs := docs s @ [\<lparr>m_id = next_id s, m_type = t, m_geojson = minimize g,
                               m_value = v,
                               m_unit = u, createdAt = now, updatedAt = now\<rparr>],
          next_id := Suc (next_id s)\<rparr>)) \<and>
   (no_empty_object g \<longrightarrow> minimize g = Some g)"
proof (intro conjI impI)
  show "fst (post_measurements ns now s b) =
      Inr (json_response 400 (JObj [(''error'', JStr ''Invalid payload'')])) \<longleftrightarrow>
    \<not> truthy (field b ''type'') \<or> \<not> truthy (field b ''geojson'') \<or>
    \<not> is_number (field b ''value'') \<or> \<not> truthy (field b ''unit'')"
    by (rule post_400_iff)
next
  assume "fst (post_measurements ns now s b) =
      Inr (json_response 400 (JObj [(''error'', JStr ''Invalid payload'')]))"
  then have "\<not> truthy (field b ''type'') \<or> \<not> truthy (field b ''geojson'') \<or>
    \<not> is_number (field b ''value'') \<or> \<not> truthy (field b ''unit'')"
    using post_400_iff by blast
  then show "snd (post_measurements ns now s b) = s"
    using post_rejects [of b ns now s] by simp
next
  assume "field b ''type'' = Some (JStr t) \<and> t \<in> set type_enum \<and>
    field b ''geojson'' = Some g \<and> truthy (Some g) \<and>
    field b ''value'' = Some (JNum v) \<and>
    field b ''unit'' = Some (JStr u) \<and> u \<noteq> [] \<and> fault s = None"
  then show "post_measurements ns now s b =
      (Inr \<lparr>status = 201,
            body = Doc \<lparr>m_id = next_id s, m_type = t, m_geojson = minimize g, m_value = v,
                        m_unit = u, createdAt = now, updatedAt = now\<rparr>\<rparr>,
       s\<lparr>docs := docs s @ [\<lparr>m_id = next_id s, m_type = t, m_geojson = minimize g,
                               m_value = v,
                               m_unit = u, createdAt = now, updatedAt = now\<rparr>],
          next_id := Suc (next_id s)\<rparr>)"
    using post_valid [of b t g v u s ns now] by blast
next
  assume "no_empty_object g"
  then show "minimize g = Some g" by (rule minimize_id)
qed

text \<open>
  The theorem at two bodies on the empty store: a polygon of value 12.5 is created with
  id 0 at time 7; the same body with the value given as the string "12.5" is answered
  400 and nothing is stored.
\<close>

theorem post_measurements_contract_witness:
  "post_measurements no_ns 7 empty_store
       (body_with (JStr ''Polygon'') (JNum 12.5) (JStr ''m2'')) =
     (Inr \<lparr>status = 201,
           body = Doc \<lparr>m_id = 0, m_type = ''Polygon'', m_geojson = Some line_feature,
                       m_value = 12.5, m_unit = ''m2'', createdAt = 7, updatedAt = 7\<rparr>\<rparr>,
      \<lparr>docs = [\<lparr>m_id = 0, m_type = ''Polygon'', m_geojson = Some line_feature,
                  m_value = 12.5, m_unit = ''m2'', createdAt = 7, updatedAt = 7\<rparr>],
        next_id = 1, fault = None\<rparr>) \<and>
   fst (post_measurements no_ns 7 empty_store
       (body_with (JStr ''Polygon'') (JStr ''12.5'') (JStr ''m2''))) =
     Inr (json_response 400 (JObj [(''error'', JStr ''Invalid payload'')])) \<and>
   snd (post_measurements no_ns 7 empty_store
       (body_with (JStr ''Polygon'') (JStr ''12.5'') (JStr ''m2''))) = empty_store"
  using post_measurements_contract [of no_ns 7 empty_store
      "body_with (JStr ''Polygon'') (JNum 12.5) (JStr ''m2'')" "''Polygon''" line_feature
      "12.5" "''m2''"]
    post_measurements_contract [of no_ns 7 empty_store
      "body_with (JStr ''Polygon'') (JStr ''12.5'') (JStr ''m2'')" "''Polygon''" line_feature
      "12.5" "''m2''"]
  by (simp add: type_enum_def)

text \<open>
  C1 as stated fails at three bodies. With \<^verbatim>\<open>type: "Circle"\<close> all four fields are
  present and pass the check of line 67, yet no record is inserted and no 201 is sent:
  the schema's enum rejects the document, and \<^verbatim>\<open>create\<close> rejects with a validation
  error on the path \<^verbatim>\<open>type\<close>. With \<^verbatim>\<open>type: ""\<close> the field is present, and the answer is
  400. With \<^verbatim>\<open>geojson: {}\<close> the record is created, and it has no \<^verbatim>\<open>geojson\<close>.
\<close>

theorem post_measurements_counterexample:
  "truthy (field (body_with (JStr ''Circle'') (JNum 3) (JStr ''m'')) ''type'') \<and>
   truthy (field (body_with (JStr ''Circle'') (JNum 3) (JStr ''m'')) ''geojson'') \<and>
   is_number (field (body_with (JStr ''Circle'') (JNum 3) (JStr ''m'')) ''value'') \<and>
   truthy (field (body_with (JStr ''Circle'') (JNum 3) (JStr ''m'')) ''unit'') \<and>
   post_measurements no_ns 7 empty_store (body_with (JStr ''Circle'') (JNum 3) (JStr ''m'')) =
     (Inl (ValidationError [''type'']), empty_store) \<and>
   field (body_with (JStr '''') (JNum 3) (JStr ''m'')) ''type'' = Some (JStr '''') \<and>
   post_measurements no_ns 7 empty_store (body_with (JStr '''') (JNum 3) (JStr ''m'')) =
     (Inr \<lparr>status = 400, body = Json (JObj [(''error'', JStr ''Invalid payload'')])\<rparr>,
      empty_store) \<and>
   fst (post_measurements no_ns 7 empty_store
     (JObj [(''type'', JStr ''LineString''), (''geojson'', JObj []), (''value'', JNum 3),
            (''unit'', JStr ''m'')])) =
     Inr \<lparr>status = 201,
          body = Doc \<lparr>m_id = 0, m_type = ''LineString'', m_geojson = None, m_value = 3,
                      m_unit = ''m'', createdAt = 7, updatedAt = 7\<rparr>\<rparr>"
  by (simp add: post_measurements_def create_def invalid_paths_def type_ok_def geojson_ok_def
      unit_ok_def type_enum_def Let_def json_response_def minimize_def)

subsection \<open>C2: deleting the latest record\<close>



subsection \<open>C3: deleting the latest record of an empty store\<close>

text \<open>
  C3. On a store without records, \<^verbatim>\<open>DELETE /api/measurements/latest\<close> leaves the store
  as it is and does not answer \<^verbatim>\<open>{ deletedCount: 1 }\<close>; when the store can be reached,
  the answer is 404 "No measurements to delete".
\<close>

theorem delete_latest_empty:
  "docs s = [] \<Longrightarrow>
   snd (delete_latest s) = s \<and>
   fst (delete_latest s) \<noteq>
     Inr \<lparr>status = 200, body = Json (JObj [(''deletedCount'', JNum 1)])\<rparr> \<and>
   (fault s = None \<longrightarrow>
      fst (delete_latest s) =
        Inr \<lparr>status = 404,
             body = Json (JObj [(''error'', JStr ''No measurements to delete'')])\<rparr>)"
  by (auto simp: delete_latest_def findOne_sorted_def find_sorted_def json_response_def
      split: option.splits)

text \<open>The theorem at the empty store.\<close>

theorem delete_latest_empty_witness:
  "delete_latest empty_store =
     (Inr \<lparr>status = 404,
           body = Json (JObj [(''error'', JStr ''No measurements to delete'')])\<rparr>,
      empty_store)"
  using delete_latest_empty [of empty_store]
  by (cases "delete_latest empty_store") simp

subsection \<open>C4: the listing\<close>

text \<open>
  C4. For every store, \<^verbatim>\<open>GET /api/measurements\<close> leaves the store as it is and answers
  either 200 with all records (the same records with the same multiplicities, none left
  out) ordered by \<^verbatim>\<open>createdAt\<close> descending, when the store can be reached, or 503
  "Database unavailable" with the message of the store's error, when it cannot.
\<close>

theorem get_measurements_all_or_503:
  "(case fault s of
      None \<Rightarrow>
        get_measurements s = (Inr \<lparr>status = 200, body = Docs (sort_desc (docs s))\<rparr>, s) \<and>
        mset (sort_desc (docs s)) = mset (docs s) \<and>
        sorted_wrt (\<lambda>a b. createdAt b \<le> createdAt a) (sort_desc (docs s))
    | Some msg \<Rightarrow>
        get_measurements s =
          (Inr \<lparr>status = 503,
                body = Json (JObj [(''error'', JStr ''Database unavailable''),
                                   (''details'', JStr msg)])\<rparr>, s))"
  by (simp add: get_measurements_def find_sorted_def json_response_def mset_sort_desc
      sorted_sort_desc split: option.split)

text \<open>
  The theorem at a store of two records, reachable (the later record comes first) and
  unreachable (503 with the detail).
\<close>

theorem get_measurements_all_or_503_witness:
  "get_measurements \<lparr>docs = [doc_A, doc_B 3], next_id = 2, fault = None\<rparr> =
     (Inr \<lparr>status = 200, body = Docs [doc_B 3, doc_A]\<rparr>,
      \<lparr>docs = [doc_A, doc_B 3], next_id = 2, fault = None\<rparr>) \<and>
   get_measurements \<lparr>docs = [doc_A, doc_B 3], next_id = 2, fault = Some ''down''\<rparr> =
     (Inr \<lparr>status = 503,
           body = Json (JObj [(''error'', JStr ''Database unavailable''),
                              (''details'', JStr ''down'')])\<rparr>,
      \<lparr>docs = [doc_A, doc_B 3], next_id = 2, fault = Some ''down''\<rparr>)"
  using get_measurements_all_or_503 [of
      "\<lparr>docs = [doc_A, doc_B 3], next_id = 2, fault = None\<rparr>"]
    get_measurements_all_or_503 [of
      "\<lparr>docs = [doc_A, doc_B 3], next_id = 2, fault = Some ''down''\<rparr>"]
  by simp

subsection \<open>C5: a batch in which one create call fails\<close>

text \<open>
  C5, as the callbacks have it. When \<^verbatim>\<open>finishDrawing\<close> sends a batch and at least one of
  its create calls fails (for instance the second of three, the other two succeeding),
  then, in whatever order the answers arrive, the final status is the failure message
  and no shape is promoted: the saved layer is as it was before and every shape of the
  batch is still pending. Line 161 promotes the shapes only when no call has failed and
  every call has succeeded.
\<close>

theorem failed_batch_promotes_nothing:
  assumes "finishDrawing lib c0 = (c, Some (payloads, b))"
    and "length rs = length payloads" and "False \<in> set rs"
  shows "savedSource (finish_then lib c0 rs) = savedSource c0 \<and>
         pendingSource (finish_then lib c0 rs) = pendingSource c0 \<and>
         lastInfo (finish_then lib c0 rs) = FailedToSave"
proof -
  have b: "done_count b = 0" "total b = length payloads"
    and c: "savedSource c = savedSource c0" "pendingSource c = pendingSource c0"
    using assms(1)
    by (auto simp: finishDrawing_def stopDrawing_def Let_def split: if_splits option.splits)
  have "done_count b + length rs \<le> total b" using b assms(2) by simp
  from deliver_with_failure [OF assms(3) this, of c] show ?thesis
    using assms(1) c by (simp add: finish_then_def)
qed

text \<open>
  The theorem at three pending lines and an empty saved layer, the answers arriving in
  the order of the calls and the second one a failure.
\<close>

theorem failed_batch_promotes_nothing_witness:
  "savedSource (finish_then unit_lib three_pending [True, False, True]) = [] \<and>
   pendingSource (finish_then unit_lib three_pending [True, False, True]) =
     [segment, segment, segment] \<and>
   lastInfo (finish_then unit_lib three_pending [True, False, True]) = FailedToSave"
  using failed_batch_promotes_nothing [OF finish_three, of "[True, False, True]"]
  by simp

text \<open>
  C5 as stated fails at that batch: with one failure among the three calls, whether its
  answer arrives second, first or last, the saved layer ends with no shape, not with
  two, and the three shapes are still pending.
\<close>

theorem failed_batch_counterexample:
  "length (savedSource (finish_then unit_lib three_pending [True, False, True])) = 0 \<and>
   length (savedSource (finish_then unit_lib three_pending [False, True, True])) = 0 \<and>
   length (savedSource (finish_then unit_lib three_pending [True, True, False])) = 0 \<and>
   length (pendingSource (finish_then unit_lib three_pending [True, False, True])) = 3"
  by (simp add: finish_then_def finish_three on_next_def on_error_def Let_def)

subsection \<open>C6: from a drawn shape to a measurement\<close>

text \<open>
  C6. A drawn line becomes the payload of type "LineString" whose GeoJSON Feature holds
  the reprojected vertices, whose value is the spherical length of the reprojected line
  and whose unit is "m". A drawn polygon becomes the payload of type "Polygon" whose
  Feature holds the reprojected outer ring inside one more array, whose value is the
  spherical area of the reprojected polygon and whose unit is the square metre. For
  every payload produced, the unit is "m" exactly when the type is "LineString" and the
  square metre exactly when the type is "Polygon", the type is one of the two, and the
  geometry type of the Feature is the type of the payload.
\<close>

theorem payload_of_shape:
  "payload_of lib (Some (LineString cs)) =
     Some \<lparr>p_type = ''LineString'',
           p_geojson =
             JObj [(''type'', JStr ''Feature''),
                   (''geometry'',
                    JObj [(''type'', JStr ''LineString''),
                          (''coordinates'',
                           JArr (map (\<lambda>c. JArr (map JNum (to4326 lib c))) cs))])],
           p_value = getLength lib (map (to4326 lib) cs), p_unit = ''m''\<rparr> \<and>
   payload_of lib (Some (Polygon (r # rs))) =
     Some \<lparr>p_type = ''Polygon'',
           p_geojson =
             JObj [(''type'', JStr ''Feature''),
                   (''geometry'',
                    JObj [(''type'', JStr ''Polygon''),
                          (''coordinates'',
                           JArr [JArr (map (\<lambda>c. JArr (map JNum (to4326 lib c))) r)])])],
           p_value = getArea lib (map (map (to4326 lib)) (r # rs)), p_unit = unit_m2\<rparr> \<and>
   (payload_of lib f = Some p \<longrightarrow>
      (p_unit p = ''m'' \<longleftrightarrow> p_type p = ''LineString'') \<and>
      (p_unit p = unit_m2 \<longleftrightarrow> p_type p = ''Polygon'') \<and>
      (p_type p = ''LineString'' \<or> p_type p = ''Polygon'') \<and>
      (\<exists>coordinates. p_geojson p = geojson_feature (p_type p) coordinates))"
proof (intro conjI impI)
  assume a: "payload_of lib f = Some p"
  then obtain geom where f: "f = Some geom" by (cases f) auto
  show "p_unit p = ''m'' \<longleftrightarrow> p_type p = ''LineString''"
    using a f by (cases "transform lib geom") (auto simp: unit_m2_def)
  show "p_unit p = unit_m2 \<longleftrightarrow> p_type p = ''Polygon''"
    using a f by (cases "transform lib geom") (auto simp: unit_m2_def)
  show "p_type p = ''LineString'' \<or> p_type p = ''Polygon''"
    using a f by (cases "transform lib geom") auto
  show "\<exists>coordinates. p_geojson p = geojson_feature (p_type p) coordinates"
    using a f by (cases "transform lib geom") auto
qed (simp_all add: geojson_feature_def coords_json_def first_ring_json_def comp_def)

text \<open>
  The theorem at the line from (0, 0) to (1, 1), with the identity as transform and a
  length function that is constantly 1.
\<close>

theorem payload_of_shape_witness:
  "payload_of unit_lib segment =
     Some \<lparr>p_type = ''LineString'', p_geojson = line_feature, p_value = 1, p_unit = ''m''\<rparr> \<and>
   p_unit \<lparr>p_type = ''LineString'', p_geojson = line_feature, p_value = 1, p_unit = ''m''\<rparr>
     \<noteq> unit_m2"
  using payload_of_shape [of unit_lib "[[0, 0], [1, 1]]" "[]" "[]" segment
     "\<lparr>p_type = ''LineString'', p_geojson = line_feature, p_value = 1, p_unit = ''m''\<rparr>"]
  by simp

subsection \<open>C7: the health check\<close>

text \<open>
  C7. \<^verbatim>\<open>GET /api/health\<close> is answered 200 with \<^verbatim>\<open>{ ok: true }\<close> whatever the store, the
  time and the body of the request are, and the store is left as it is: the answer is
  the same for a store that cannot be reached.
\<close>

theorem health_always_ok:
  "app ns now s \<lparr>req_method = GET, req_path = ''/api/health'', req_body = rb\<rparr> =
     (Inr \<lparr>status = 200, body = Json (JObj [(''ok'', JBool True)])\<rparr>, s)"
  by (simp add: app_def route_matches_def health_path get_health_def json_response_def)

text \<open>The theorem at a store that cannot be reached.\<close>

theorem health_always_ok_witness:
  "app no_ns 0 \<lparr>docs = [], next_id = 0, fault = Some ''unreachable''\<rparr>
      \<lparr>req_method = GET, req_path = ''/api/health'', req_body = NoBody\<rparr> =
     (Inr \<lparr>status = 200, body = Json (JObj [(''ok'', JBool True)])\<rparr>,
      \<lparr>docs = [], next_id = 0, fault = Some ''unreachable''\<rparr>)"
  using health_always_ok [of no_ns 0
      "\<lparr>docs = [], next_id = 0, fault = Some ''unreachable''\<rparr>" NoBody]
  by simp

subsection \<open>C8: the sign of a persisted value\<close>

text \<open>
  C8, as the handler has it. A create call either leaves the store as it is, and then
  does not answer 201, or appends exactly one record and answers 201 with it, and the
  \<^verbatim>\<open>value\<close> of that record is the number that was submitted. The handler checks that
  \<^verbatim>\<open>value\<close> is a number and nothing about its sign, so a create call keeps "every
  persisted value is non-negative" exactly when the submitted value is non-negative.
\<close>

theorem create_keeps_submitted_value:
  "post_measurements ns now s b = (r, s') \<Longrightarrow>
   (s' = s \<and> \<not> (\<exists>d. r = Inr \<lparr>status = 201, body = Doc d\<rparr>)) \<or>
   (\<exists>d. r = Inr \<lparr>status = 201, body = Doc d\<rparr> \<and>
        field b ''value'' = Some (JNum (m_value d)) \<and> docs s' = docs s @ [d] \<and>
        (list_all (\<lambda>e. 0 \<le> m_value e) (docs s') \<longleftrightarrow>
         list_all (\<lambda>e. 0 \<le> m_value e) (docs s) \<and> 0 \<le> m_value d))"
  using post_outcomes [of ns now s b r s'] by auto

text \<open>
  The theorem at the create call of record A (value 5) on the empty store: one record
  is appended and every persisted value is still non-negative.
\<close>

theorem create_keeps_submitted_value_witness:
  "post_measurements no_ns 2 empty_store
       (body_with (JStr ''LineString'') (JNum 5) (JStr ''m'')) =
     (Inr \<lparr>status = 201, body = Doc doc_A\<rparr>,
      \<lparr>docs = [doc_A], next_id = 1, fault = None\<rparr>) \<and>
   list_all (\<lambda>e. 0 \<le> m_value e) [doc_A]"
  using create_keeps_submitted_value [OF post_A] post_A by simp

text \<open>
  C8 as stated fails at a line of value -5 submitted to the empty store: the call is
  accepted with 201 and the record is persisted with the negative value.
\<close>

theorem negative_value_counterexample:
  "post_measurements no_ns 7 empty_store
       (body_with (JStr ''LineString'') (JNum (- 5)) (JStr ''m'')) =
     (Inr \<lparr>status = 201,
           body = Doc \<lparr>m_id = 0, m_type = ''LineString'', m_geojson = Some line_feature,
                       m_value = - 5, m_unit = ''m'', createdAt = 7, updatedAt = 7\<rparr>\<rparr>,
      \<lparr>docs = [\<lparr>m_id = 0, m_type = ''LineString'', m_geojson = Some line_feature,
                  m_value = - 5, m_unit = ''m'', createdAt = 7, updatedAt = 7\<rparr>],
        next_id = 1, fault = None\<rparr>) \<and>
   \<not> list_all (\<lambda>e. 0 \<le> m_value e)
       (docs (snd (post_measurements no_ns 7 empty_store
          (body_with (JStr ''LineString'') (JNum (- 5)) (JStr ''m'')))))"
  by (simp add: post_measurements_def create_def invalid_paths_def type_ok_def geojson_ok_def
      unit_ok_def type_enum_def Let_def minimize_def)

subsection \<open>C9: requests that match no route\<close>

text \<open>
  C9, as the middleware chain has it. A request that matches none of the defined routes,
  is not an OPTIONS request and whose body the JSON parser accepts, is answered 404
  "Not found", and the store is left as it is. In particular
  \<^verbatim>\<open>DELETE /api/measurements\<close>, sent without a body as the client's \<^verbatim>\<open>clearDatabase\<close>
  does, is answered so: the application has no route that deletes all records.
\<close>

theorem unmatched_gets_404:
  "(unmatched req \<and> req_method req \<noteq> OPTIONS \<and> express_json (req_body req) = Inr b \<longrightarrow>
      app ns now s req =
        (Inr \<lparr>status = 404, body = Json (JObj [(''error'', JStr ''Not found'')])\<rparr>, s)) \<and>
   app ns now s \<lparr>req_method = DELETE, req_path = ''/api/measurements'', req_body = NoBody\<rparr> =
     (Inr \<lparr>status = 404, body = Json (JObj [(''error'', JStr ''Not found'')])\<rparr>, s)"
proof -
  have gen: "app ns now s r =
        (Inr \<lparr>status = 404, body = Json (JObj [(''error'', JStr ''Not found'')])\<rparr>, s)"
    if "unmatched r" "req_method r \<noteq> OPTIONS" "express_json (req_body r) = Inr b'"
    for r b'
    using unmatched_routes [OF that(1)] that(2,3)
    by (simp add: app_def not_found_def json_response_def)
  show ?thesis
    using gen [of req b]
      gen [of "\<lparr>req_method = DELETE, req_path = ''/api/measurements'', req_body = NoBody\<rparr>"
        "JObj []"]
      delete_all_unmatched [of NoBody]
    by simp
qed

text \<open>
  The theorem at \<^verbatim>\<open>PUT /api/measurements/latest\<close> with an empty JSON object as body, on
  a store of one record.
\<close>

theorem unmatched_gets_404_witness:
  "unmatched \<lparr>req_method = PUT, req_path = ''/api/measurements/latest'',
              req_body = JsonBody (JObj [])\<rparr> \<and>
   app no_ns 9 \<lparr>docs = [doc_A], next_id = 1, fault = None\<rparr>
       \<lparr>req_method = PUT, req_path = ''/api/measurements/latest'',
        req_body = JsonBody (JObj [])\<rparr> =
     (Inr \<lparr>status = 404, body = Json (JObj [(''error'', JStr ''Not found'')])\<rparr>,
      \<lparr>docs = [doc_A], next_id = 1, fault = None\<rparr>)"
proof -
  have u: "unmatched \<lparr>req_method = PUT, req_path = ''/api/measurements/latest'',
              req_body = JsonBody (JObj [])\<rparr>"
    by (simp add: unmatched_def defined_routes_def route_matches_def)
  show ?thesis
    using u unmatched_gets_404 [of
        "\<lparr>req_method = PUT, req_path = ''/api/measurements/latest'',
          req_body = JsonBody (JObj [])\<rparr>" "JObj []" no_ns 9
        "\<lparr>docs = [doc_A], next_id = 1, fault = None\<rparr>"]
    by simp
qed

text \<open>
  C9 as stated fails at two requests that match no route. \<^verbatim>\<open>OPTIONS /api/measurements\<close>
  is answered 204 by the CORS middleware of line 16, before any route. A POST to
  \<^verbatim>\<open>/api/nothing\<close> whose body is not JSON is stopped by the parser of line 17 with its
  own error, so the last middleware with its 404 is never reached.
\<close>

theorem unmatched_counterexample:
  "unmatched \<lparr>req_method = OPTIONS, req_path = ''/api/measurements'', req_body = NoBody\<rparr> \<and>
   app no_ns 0 empty_store
       \<lparr>req_method = OPTIONS, req_path = ''/api/measurements'', req_body = NoBody\<rparr> =
     (Inr \<lparr>status = 204, body = Empty\<rparr>, empty_store) \<and>
   unmatched \<lparr>req_method = POST, req_path = ''/api/nothing'', req_body = BadJson\<rparr> \<and>
   app no_ns 0 empty_store
       \<lparr>req_method = POST, req_path = ''/api/nothing'', req_body = BadJson\<rparr> =
     (Inl BodyParseError, empty_store)"
proof -
  have p: "\<not> path_matches ''/api/measurements'' ''/api/nothing''"
    by code_simp
  show ?thesis
    using p by (simp add: unmatched_def defined_routes_def route_matches_def app_def)
qed

subsection \<open>C10: truthiness in the check of the create call\<close>

text \<open>
  C10. The check of line 67 tests \<^verbatim>\<open>type\<close>, \<^verbatim>\<open>geojson\<close> and \<^verbatim>\<open>unit\<close> for truthiness and
  \<^verbatim>\<open>value\<close> for being a number. A body whose \<^verbatim>\<open>value\<close> is 0 and whose other three
  fields are truthy is not answered 400, and with a type of the enum and a string unit
  on a reachable store it is created with status 201 and value 0. A body whose \<^verbatim>\<open>type\<close>
  or \<^verbatim>\<open>unit\<close> is the empty string is answered 400, the store unchanged, although the
  field is present.
\<close>

theorem validation_by_truthiness:
  "(field b ''value'' = Some (JNum 0) \<and> truthy (field b ''type'') \<and>
    truthy (field b ''geojson'') \<and> truthy (field b ''unit'') \<longrightarrow>
      fst (post_measurements ns now s b) \<noteq>
        Inr (json_response 400 (JObj [(''error'', JStr ''Invalid payload'')]))) \<and>
   (field b ''type'' = Some (JStr t) \<and> t \<in> set type_enum \<and>
    field b ''geojson'' = Some g \<and> truthy (Some g) \<and>
    field b ''value'' = Some (JNum 0) \<and>
    field b ''unit'' = Some (JStr u) \<and> u \<noteq> [] \<and> fault s = None \<longrightarrow>
      (\<exists>d s'. post_measurements ns now s b = (Inr \<lparr>status = 201, body = Doc d\<rparr>, s') \<and>
         m_value d = 0 \<and> docs s' = docs s @ [d])) \<and>
   (field b ''type'' = Some (JStr []) \<or> field b ''unit'' = Some (JStr []) \<longrightarrow>
      post_measurements ns now s b =
        (Inr (json_response 400 (JObj [(''error'', JStr ''Invalid payload'')])), s))"
proof (intro conjI impI)
  assume "field b ''value'' = Some (JNum 0) \<and> truthy (field b ''type'') \<and>
    truthy (field b ''geojson'') \<and> truthy (field b ''unit'')"
  then show "fst (post_measurements ns now s b) \<noteq>
        Inr (json_response 400 (JObj [(''error'', JStr ''Invalid payload'')]))"
    using post_400_iff [of ns now s b] by simp
next
  assume "field b ''type'' = Some (JStr t) \<and> t \<in> set type_enum \<and>
    field b ''geojson'' = Some g \<and> truthy (Some g) \<and>
    field b ''value'' = Some (JNum 0) \<and>
    field b ''unit'' = Some (JStr u) \<and> u \<noteq> [] \<and> fault s = None"
  then show "\<exists>d s'. post_measurements ns now s b = (Inr \<lparr>status = 201, body = Doc d\<rparr>, s') \<and>
         m_value d = 0 \<and> docs s' = docs s @ [d]"
    using post_valid [of b t g 0 u s ns now] by simp
next
  assume "field b ''type'' = Some (JStr []) \<or> field b ''unit'' = Some (JStr [])"
  then have "\<not> truthy (field b ''type'') \<or> \<not> truthy (field b ''unit'')" by auto
  then show "post_measurements ns now s b =
        (Inr (json_response 400 (JObj [(''error'', JStr ''Invalid payload'')])), s)"
    using post_rejects [of b ns now s] by blast
qed

text \<open>
  The theorem at three bodies on the empty store: a line of value 0 is not answered 400;
  the same body with the empty string as type, and with the empty string as unit, is
  answered 400.
\<close>

theorem validation_by_truthiness_witness:
  "fst (post_measurements no_ns 7 empty_store
       (body_with (JStr ''LineString'') (JNum 0) (JStr ''m''))) \<noteq>
     Inr (json_response 400 (JObj [(''error'', JStr ''Invalid payload'')])) \<and>
   (\<exists>d s'. post_measurements no_ns 7 empty_store
       (body_with (JStr ''LineString'') (JNum 0) (JStr ''m'')) =
         (Inr \<lparr>status = 201, body = Doc d\<rparr>, s') \<and> m_value d = 0 \<and> docs s' = [d]) \<and>
   post_measurements no_ns 7 empty_store (body_with (JStr []) (JNum 0) (JStr ''m'')) =
     (Inr (json_response 400 (JObj [(''error'', JStr ''Invalid payload'')])), empty_store) \<and>
   post_measurements no_ns 7 empty_store (body_with (JStr ''LineString'') (JNum 0) (JStr [])) =
     (Inr (json_response 400 (JObj [(''error'', JStr ''Invalid payload'')])), empty_store)"
  using validation_by_truthiness [where b = "body_with (JStr ''LineString'') (JNum 0) (JStr ''m'')"
      and t = "''LineString''" and g = line_feature and u = "''m''" and s = empty_store
      and ns = no_ns and now = 7]
    validation_by_truthiness [where b = "body_with (JStr []) (JNum 0) (JStr ''m'')"
      and t = "''LineString''" and g = line_feature and u = "''m''" and s = empty_store
      and ns = no_ns and now = 7]
    validation_by_truthiness [where b = "body_with (JStr ''LineString'') (JNum 0) (JStr [])"
      and t = "''LineString''" and g = line_feature and u = "''m''" and s = empty_store
      and ns = no_ns and now = 7]
  by (simp add: type_enum_def)

end
